theory Spec2Isabelle
  imports Main "HOL-Library.AList"
begin

section \<open>Python values, errors and the outside world\<close>

text \<open>
  The module \<^verbatim>\<open>appModuleHandler.py\<close> keeps its state in module globals and talks to the
  operating system, the file system, the logger and the speech output. The globals and
  everything the code writes (log records, spoken messages, calls into the OS) form the
  record \<open>state\<close>; everything the code only reads (files, the process snapshot, the
  configuration, the result of importing an extension file) forms the record \<open>env\<close>.
  A Python exception is the \<open>Inl\<close> branch of a sum; the state reached when the exception
  is raised is returned beside it, as the mutations made before a raise stay in place.
\<close>

datatype pyval = PNone | PInt int | PStr string

datatype pyerror =
    RuntimeError string
  | NameError string
  | KeyError pyval
  | AttributeError string
  | IOError string

datatype level = DEBUG | INFO | ERROR

text \<open>A log record keeps the level, the format string of the source and its arguments.\<close>

datatype logentry = Log level string "pyval list"

text \<open>A spoken message keeps the format string handed to gettext and its arguments.\<close>

datatype utterance = Speak string "pyval list"

datatype oscall =
    CreateToolhelp32Snapshot
  | Process32First
  | Process32Next
  | CloseHandle
  | OpenProcess pyval
  | WaitForSingleObject int
  | GetForegroundWindow
  | GetDesktopWindow
  | GetPid
  | IsFile string
  | OpenFile string

text \<open>
  The class a module instance is built from: the base class \<open>AppModule\<close> of this file, or
  the class exported by the extension file of the given name.
\<close>

datatype classref = AppModule | Custom string

text \<open>
  The value of the attribute \<^verbatim>\<open>AppModule\<close> of an imported extension file: \<^verbatim>\<open>None\<close>, some
  other value that Python treats as false, or a class.
\<close>

datatype attrval = AttrNone | AttrFalsy | AttrClass classref

text \<open>
  \<^verbatim>\<open>__import__(appName, ...).AppModule\<close>: the import raises, or it yields a module whose
  attribute \<^verbatim>\<open>AppModule\<close> is absent (\<open>None\<close>, the attribute access raises) or present.
\<close>

datatype import_result = ImportRaises | Imported "attrval option"

text \<open>
  An instance of an app module. \<open>ident\<close> is the identity of the Python object;
  \<open>keyMap\<close> is \<open>None\<close> while the instance has no \<^verbatim>\<open>_keyMap\<close> of its own in its
  \<^verbatim>\<open>__dict__\<close>.
\<close>

record appmodule =
  ident :: nat
  cls :: classref
  processID :: pyval
  appName :: pyval
  processHandle :: int
  keyMap :: "(string \<rightharpoonup> string) option"

record env =
  files :: "string \<rightharpoonup> string list"
  importModule :: "string \<Rightarrow> import_result"
  snapshot :: "(int \<times> string) list"
  keyboardLayout :: string
  foregroundWindow :: int
  desktopWindow :: int
  getpid :: int
  openProcess :: "pyval \<Rightarrow> int"
  waitForSingleObject :: "int \<Rightarrow> int"
  bindKey_runtime :: "appmodule \<Rightarrow> string \<Rightarrow> string \<Rightarrow> bool \<times> appmodule"
  focusAppModules :: "nat list"
  hasAppLoseFocus :: "classref \<Rightarrow> bool"

record state =
  runningTable :: "(pyval \<times> appmodule option) list"
  defaultModule :: "appmodule option"
  NVDAProcessID :: pyval
  logged :: "logentry list"
  spoken :: "utterance list"
  oscalls :: "oscall list"
  lostFocus :: "nat list"
  nextIdent :: nat

definition log :: "level \<Rightarrow> string \<Rightarrow> pyval list \<Rightarrow> state \<Rightarrow> state" where
  "log l fmt args s = s\<lparr>logged := logged s @ [Log l fmt args]\<rparr>"

definition speakMessage :: "string \<Rightarrow> pyval list \<Rightarrow> state \<Rightarrow> state" where
  "speakMessage fmt args s = s\<lparr>spoken := spoken s @ [Speak fmt args]\<rparr>"

definition oscall :: "oscall list \<Rightarrow> state \<Rightarrow> state" where
  "oscall cs s = s\<lparr>oscalls := oscalls s @ cs\<rparr>"

subsection \<open>Strings\<close>

definition backslash :: char where
  "backslash = CHR 0x5C"

text \<open>\<^verbatim>\<open>str.lower\<close> of Python 2 in the C locale: the letters A to Z only.\<close>

definition lower_chr :: "char \<Rightarrow> char" where
  "lower_chr c =
     (let n = (of_char c :: nat) in if 65 \<le> n \<and> n \<le> 90 then char_of (n + 32) else c)"

definition lower :: "string \<Rightarrow> string" where
  "lower s = map lower_chr s"

text \<open>\<^verbatim>\<open>str.rfind\<close> for a single character: the last index, or -1.\<close>

fun rfind_from :: "string \<Rightarrow> char \<Rightarrow> int \<Rightarrow> int \<Rightarrow> int" where
  "rfind_from [] c i found = found"
| "rfind_from (x # xs) c i found = rfind_from xs c (i + 1) (if x = c then i else found)"

definition rfind :: "string \<Rightarrow> char \<Rightarrow> int" where
  "rfind p c = rfind_from p c 0 (- 1)"

text \<open>
  \<^verbatim>\<open>os.path.splitext\<close> on Windows (\<^verbatim>\<open>ntpath.splitext\<close>, through
  \<^verbatim>\<open>genericpath._splitext\<close> with the separators backslash and slash): the extension
  starts at the last dot, if that dot comes after the last separator and after a character
  of the file name that is not a dot.
\<close>

definition splitext :: "string \<Rightarrow> string \<times> string" where
  "splitext p =
     (let sepIndex = max (rfind p backslash) (rfind p CHR ''/'');
          dotIndex = rfind p CHR ''.''
      in if dotIndex > sepIndex \<and>
            list_ex (\<lambda>i. p ! i \<noteq> CHR ''.'') [nat (sepIndex + 1)..<nat dotIndex]
         then (take (nat dotIndex) p, drop (nat dotIndex) p)
         else (p, []))"

text \<open>Decimal rendering of an integer, for the \<^verbatim>\<open>%s\<close> of a format string.\<close>

fun dec_nat :: "nat \<Rightarrow> string" where
  "dec_nat n =
     (if n < 10 then [char_of (48 + n)] else dec_nat (n div 10) @ [char_of (48 + n mod 10)])"

definition py_str :: "pyval \<Rightarrow> string" where
  "py_str v =
     (case v of
        PNone \<Rightarrow> ''None''
      | PInt i \<Rightarrow> (if i < 0 then CHR ''-'' # dec_nat (nat (- i)) else dec_nat (nat i))
      | PStr s \<Rightarrow> s)"

definition str_of_bool :: "bool \<Rightarrow> pyval" where
  "str_of_bool b = PStr (if b then ''True'' else ''False'')"

section \<open>Process identity: getAppNameFromProcessID\<close>

text \<open>
  The loop over the snapshot. The list is what \<^verbatim>\<open>Process32First\<close> and the following
  calls of \<^verbatim>\<open>Process32Next\<close> deliver, each entry with \<^verbatim>\<open>th32ProcessID\<close> and
  \<^verbatim>\<open>szExeFile\<close>. The result is the name found (the empty \<^verbatim>\<open>str()\<close> when the loop runs
  off the end) and the calls of \<^verbatim>\<open>Process32Next\<close> the loop made.
\<close>

fun scanSnapshot :: "(int \<times> string) list \<Rightarrow> pyval \<Rightarrow> string \<times> oscall list" where
  "scanSnapshot [] procID = ([], [])"
| "scanSnapshot ((p, exe) # rest) procID =
     (if PInt p = procID then (exe, [])
      else (let (name, cs) = scanSnapshot rest procID in (name, Process32Next # cs)))"

definition getAppNameFromProcessID :: "env \<Rightarrow> pyval \<Rightarrow> bool \<Rightarrow> state \<Rightarrow> string \<times> state" where
  "getAppNameFromProcessID e procID includeExt s =
     (if procID = NVDAProcessID s then ((if includeExt then ''nvda.exe'' else ''nvda''), s)
      else
        (let (found, cs) = scanSnapshot (snapshot e) procID;
             s1 = oscall ([CreateToolhelp32Snapshot, Process32First] @ cs @ [CloseHandle]) s;
             name = (if \<not> includeExt then lower (fst (splitext found)) else found);
             s2 = log DEBUG ''appName: %s'' [PStr name] s1
         in (name, s2)))"

section \<open>Key maps: getKeyMapFileName and loadKeyMap\<close>

definition isfile :: "env \<Rightarrow> string \<Rightarrow> bool" where
  "isfile e path = (files e path \<noteq> None)"

definition keyMapPath :: "pyval \<Rightarrow> string \<Rightarrow> string" where
  "keyMapPath aName layout = ''appModules/'' @ py_str aName @ ''_'' @ layout @ ''.kbd''"

function getKeyMapFileName :: "env \<Rightarrow> pyval \<Rightarrow> string \<Rightarrow> state \<Rightarrow> string option \<times> state" where
  "getKeyMapFileName e aName layout s =
     (let fname = keyMapPath aName layout;
          s1 = oscall [IsFile fname] s
      in if isfile e fname
         then (Some fname, log DEBUG ''Found keymap file for %s at %s'' [aName, PStr fname] s1)
         else if layout \<noteq> ''desktop''
         then getKeyMapFileName e aName ''desktop'' s1
         else (None, log DEBUG ''No keymapFile for %s'' [aName] s1))"
  by pat_completeness auto
termination
  by (relation "measure (\<lambda>(e, aName, layout, s). if layout = ''desktop'' then 0 else 1)") auto

declare getKeyMapFileName.simps [simp del]

text \<open>
  The characters that \<^verbatim>\<open>\s\<close> and \<^verbatim>\<open>str.isspace\<close> accept for a byte string: space, tab,
  newline, vertical tab, form feed, carriage return.
\<close>

definition isspace_chr :: "char \<Rightarrow> bool" where
  "isspace_chr c = (c \<in> set [CHR '' '', CHR 0x09, CHR 0x0A, CHR 0x0B, CHR 0x0C, CHR 0x0D])"

text \<open>\<^verbatim>\<open>str.isspace\<close>: false for the empty string.\<close>

definition isspace :: "string \<Rightarrow> bool" where
  "isspace x = (x \<noteq> [] \<and> list_all isspace_chr x)"

definition startswith_hash :: "string \<Rightarrow> bool" where
  "startswith_hash x = (case x of [] \<Rightarrow> False | c # _ \<Rightarrow> c = CHR ''#'')"

text \<open>
  The regular expression \<^verbatim>\<open>^\s*(?P<key>[\S]+)\s*=\s*(?P<script>[\S]+)\s*$\<close>, matched at the
  start of the line as \<^verbatim>\<open>re_keyScript.match\<close> does. \<open>matchAfterKey\<close> matches
  \<^verbatim>\<open>\s*=\s*(?P<script>[\S]+)\s*$\<close> against what follows the key; the script group takes the
  whole run of non-space characters, as any shorter one leaves a non-space character before
  the end. \<open>matchKey\<close> is the backtracking of the greedy key group: the key is the longest
  non-empty prefix of the first run of non-space characters after which the rest matches.
\<close>

definition matchAfterKey :: "string \<Rightarrow> string option" where
  "matchAfterKey r =
     (case dropWhile isspace_chr r of
        [] \<Rightarrow> None
      | c # r2 \<Rightarrow>
          if c \<noteq> CHR ''='' then None
          else (let r3 = dropWhile isspace_chr r2;
                    script = takeWhile (\<lambda>c. \<not> isspace_chr c) r3;
                    r4 = dropWhile (\<lambda>c. \<not> isspace_chr c) r3
                in if script \<noteq> [] \<and> list_all isspace_chr r4 then Some script else None))"

fun matchKey :: "nat \<Rightarrow> string \<Rightarrow> string \<Rightarrow> (string \<times> string) option" where
  "matchKey 0 tok rest = None"
| "matchKey (Suc k) tok rest =
     (case matchAfterKey (drop (Suc k) tok @ rest) of
        Some script \<Rightarrow> Some (take (Suc k) tok, script)
      | None \<Rightarrow> matchKey k tok rest)"

definition re_keyScript :: "string \<Rightarrow> (string \<times> string) option" where
  "re_keyScript line =
     (let l = dropWhile isspace_chr line;
          tok = takeWhile (\<lambda>c. \<not> isspace_chr c) l;
          rest = dropWhile (\<lambda>c. \<not> isspace_chr c) l
      in matchKey (length tok) tok rest)"

text \<open>
  The loop over the lines of the key map file, carrying the module, \<^verbatim>\<open>bindCount\<close> and the
  state. \<open>bindKey_runtime\<close> belongs to the base class \<^verbatim>\<open>ScriptableObject\<close>, which is
  not part of this file: the environment gives whether the call returns (\<open>True\<close>) or raises,
  and the module as the call leaves it.
\<close>

fun bindLines ::
  "env \<Rightarrow> pyval \<Rightarrow> string list \<Rightarrow> appmodule \<times> nat \<times> state \<Rightarrow> appmodule \<times> nat \<times> state" where
  "bindLines e aName [] acc = acc"
| "bindLines e aName (line # rest) (m, bindCount, s) =
     (if startswith_hash line \<or> isspace line then bindLines e aName rest (m, bindCount, s)
      else
        (case re_keyScript line of
           None \<Rightarrow> bindLines e aName rest (m, bindCount, s)
         | Some (key, script) \<Rightarrow>
             (case bindKey_runtime e m key script of
                (True, m') \<Rightarrow> bindLines e aName rest (m', bindCount + 1, s)
              | (False, m') \<Rightarrow>
                  bindLines e aName rest
                    (m', bindCount,
                     log ERROR ''error binding %s to %s in module %s''
                       [PStr script, PStr key, aName] s))))"

text \<open>Clearing a key map that the instance already has (\<^verbatim>\<open>'_keyMap' in mod.__dict__\<close>).\<close>

definition clearKeyMap :: "appmodule \<Rightarrow> appmodule" where
  "clearKeyMap m = (if keyMap m \<noteq> None then m\<lparr>keyMap := Some Map.empty\<rparr> else m)"

text \<open>
  \<open>loadKeyMap\<close> mutates the module it is given: the model returns the result, the module
  as the call leaves it, and the state.
\<close>

definition loadKeyMap ::
  "env \<Rightarrow> pyval \<Rightarrow> appmodule \<Rightarrow> state \<Rightarrow> (pyerror + bool) \<times> appmodule \<times> state" where
  "loadKeyMap e aName m s =
     (let layout = keyboardLayout e;
          (keyMapFileName, s1) = getKeyMapFileName e aName layout s
      in case keyMapFileName of
           None \<Rightarrow> (Inr False, m, s1)
         | Some fname \<Rightarrow>
             (let s2 = oscall [OpenFile fname] s1
              in case files e fname of
                   None \<Rightarrow> (Inl (IOError fname), m, s2)
                 | Some keyMapFile \<Rightarrow>
                     (let (m', bindCount, s3) =
                            bindLines e aName keyMapFile (clearKeyMap m, 0, s2);
                          s4 = log DEBUG ''added %s bindings to module %s from file %s''
                                 [PInt (int bindCount), aName, PStr fname] s3
                      in (Inr True, m', s4))))"

section \<open>Discovery and loading: moduleExists and fetchAppModuleClass\<close>

definition modulePath :: "string \<Rightarrow> string" where
  "modulePath name = ''appModules/'' @ name @ ''.py''"

definition moduleExists :: "env \<Rightarrow> string \<Rightarrow> state \<Rightarrow> bool \<times> state" where
  "moduleExists e name s =
     (let path = modulePath name;
          res = isfile e path;
          s1 = oscall [IsFile path] s
      in (res, log DEBUG ''Does appModules/%s.py exist: %s'' [PStr name, str_of_bool res] s1))"

text \<open>
  The tail of \<open>fetchAppModuleClass\<close>: \<^verbatim>\<open>if mod is None: return AppModule\<close>, else
  \<^verbatim>\<open>return mod\<close>.
\<close>

definition orAppModule :: "attrval \<Rightarrow> attrval" where
  "orAppModule v = (if v = AttrNone then AttrClass AppModule else v)"

text \<open>
  The import and the read of the attribute \<^verbatim>\<open>AppModule\<close> both stand inside the
  \<^verbatim>\<open>try\<close>, whose bare \<^verbatim>\<open>except\<close> logs, speaks and raises \<^verbatim>\<open>RuntimeError\<close> with no
  argument.
\<close>

definition fetchAppModuleClass :: "env \<Rightarrow> string \<Rightarrow> state \<Rightarrow> (pyerror + attrval) \<times> state" where
  "fetchAppModuleClass e aName s =
     (let (ex, s1) = moduleExists e aName s
      in if ex then
           (case importModule e aName of
              Imported (Some v) \<Rightarrow> (Inr (orAppModule v), s1)
            | _ \<Rightarrow>
                (let s2 = log ERROR ''Error in appModule %s'' [PStr aName] s1;
                     s3 = speakMessage ''Error in appModule %s'' [PStr aName] s2
                 in (Inl (RuntimeError []), s3)))
         else (Inr (orAppModule AttrNone), s1))"

section \<open>The class AppModule\<close>

text \<open>
  \<^verbatim>\<open>AppModule.__init__(self, processID, appName=None)\<close>; the argument \<open>PNone\<close> stands for
  the default. The classes of extension files are taken to inherit this constructor. It sets
  \<^verbatim>\<open>processID\<close>, \<^verbatim>\<open>appName\<close> and \<^verbatim>\<open>processHandle\<close> and no \<^verbatim>\<open>_keyMap\<close>. The new
  object gets the next free identity.
\<close>

definition AppModule_init :: "env \<Rightarrow> classref \<Rightarrow> pyval \<Rightarrow> pyval \<Rightarrow> state \<Rightarrow> appmodule \<times> state" where
  "AppModule_init e c procID aNameArg s =
     (let (aName, s1) =
            (if aNameArg = PNone
             then (let (n, s') = getAppNameFromProcessID e procID False s in (PStr n, s'))
             else (aNameArg, s));
          s2 = oscall [OpenProcess procID] s1;
          m = \<lparr>ident = nextIdent s2, cls = c, processID = procID, appName = aName,
               processHandle = openProcess e procID, keyMap = None\<rparr>
      in (m, s2\<lparr>nextIdent := Suc (nextIdent s2)\<rparr>))"

text \<open>\<^verbatim>\<open>_get_isAlive\<close>: \<^verbatim>\<open>bool(winKernel.waitForSingleObject(self.processHandle, 0))\<close>.\<close>

definition isAlive :: "env \<Rightarrow> appmodule \<Rightarrow> bool" where
  "isAlive e m = (waitForSingleObject e (processHandle m) \<noteq> 0)"

section \<open>The running table: getAppModuleFromProcessID and update\<close>

text \<open>
  \<^verbatim>\<open>runningTable\<close> is a dictionary; the association list keeps an order of iteration. The
  value \<open>None\<close> is a stored Python \<^verbatim>\<open>None\<close>. \<^verbatim>\<open>runningTable.get\<close> gives \<^verbatim>\<open>None\<close> for a
  missing key, and \<^verbatim>\<open>not mod\<close> holds for \<^verbatim>\<open>None\<close> only, an instance being true.
\<close>

definition getAppModuleFromProcessID ::
  "env \<Rightarrow> pyval \<Rightarrow> state \<Rightarrow> (pyerror + appmodule option) \<times> state" where
  "getAppModuleFromProcessID e procID s =
     (case map_of (runningTable s) procID of
        Some (Some m) \<Rightarrow> (Inr (Some m), s)
      | _ \<Rightarrow>
          (let (aName, s1) = getAppNameFromProcessID e procID False s
           in case fetchAppModuleClass e aName s1 of
                (Inl err, s2) \<Rightarrow> (Inl err, s2)
              | (Inr modClass, s2) \<Rightarrow>
                  (case modClass of
                     AttrClass c \<Rightarrow>
                       (let (m, s3) = AppModule_init e c procID (PStr aName) s2;
                            s4 = (if c \<noteq> AppModule
                                  then log INFO ''Loaded appModule %s'' [appName m] s3 else s3)
                        in case loadKeyMap e (appName m) m s4 of
                             (Inl err, m', s5) \<Rightarrow> (Inl err, s5)
                           | (Inr _, m', s5) \<Rightarrow>
                               (Inr (Some m'),
                                s5\<lparr>runningTable :=
                                     AList.update procID (Some m') (runningTable s5)\<rparr>))
                   | _ \<Rightarrow>
                       (Inr None,
                        s2\<lparr>runningTable := AList.update procID None (runningTable s2)\<rparr>))))"

text \<open>
  The list comprehension of \<open>update\<close>: \<^verbatim>\<open>mod.isAlive\<close> is read for every value of the
  table, and raises \<^verbatim>\<open>AttributeError\<close> on a stored \<^verbatim>\<open>None\<close>.
\<close>

fun deadModules ::
  "env \<Rightarrow> appmodule option list \<Rightarrow> state \<Rightarrow> (pyerror + appmodule list) \<times> state" where
  "deadModules e [] s = (Inr [], s)"
| "deadModules e (None # vs) s = (Inl (AttributeError ''isAlive''), s)"
| "deadModules e (Some m # vs) s =
     (let s1 = oscall [WaitForSingleObject (processHandle m)] s
      in case deadModules e vs s1 of
           (Inl err, s2) \<Rightarrow> (Inl err, s2)
         | (Inr ds, s2) \<Rightarrow> (Inr (if \<not> isAlive e m then m # ds else ds), s2))"

text \<open>
  The body of the \<^verbatim>\<open>for\<close> loop of \<open>update\<close>. The call of
  \<open>getAppModuleFromProcessID\<close> is the last statement of the body, as indented in the
  source. The app modules of the focus ancestors and of the focus object come from the
  environment by identity; \<^verbatim>\<open>event_appLoseFocus\<close>, where the class has it, is recorded in
  \<open>lostFocus\<close>. Reading the focus objects and delivering the event belong to other
  modules; they are taken to return and to leave the running table alone.
\<close>

fun updateLoop :: "env \<Rightarrow> pyval \<Rightarrow> appmodule list \<Rightarrow> state \<Rightarrow> (pyerror + unit) \<times> state" where
  "updateLoop e procID [] s = (Inr (), s)"
| "updateLoop e procID (deadMod # rest) s =
     (let s1 = log DEBUG ''application %s closed'' [appName deadMod] s
      in case map_of (runningTable s1) (processID deadMod) of
           None \<Rightarrow> (Inl (KeyError (processID deadMod)), s1)
         | Some _ \<Rightarrow>
             (let s2 = s1\<lparr>runningTable := AList.delete (processID deadMod) (runningTable s1)\<rparr>;
                  s3 = (if ident deadMod \<in> set (focusAppModules e) \<and> hasAppLoseFocus e (cls deadMod)
                        then s2\<lparr>lostFocus := lostFocus s2 @ [ident deadMod]\<rparr> else s2)
              in case getAppModuleFromProcessID e procID s3 of
                   (Inl err, s4) \<Rightarrow> (Inl err, s4)
                 | (Inr _, s4) \<Rightarrow> updateLoop e procID rest s4))"

definition update :: "env \<Rightarrow> pyval \<Rightarrow> state \<Rightarrow> (pyerror + unit) \<times> state" where
  "update e procID s =
     (case deadModules e (map snd (runningTable s)) s of
        (Inl err, s1) \<Rightarrow> (Inl err, s1)
      | (Inr ds, s1) \<Rightarrow> updateLoop e procID ds s1)"

section \<open>Startup and the active module\<close>

definition initialize :: "env \<Rightarrow> state \<Rightarrow> (pyerror + unit) \<times> state" where
  "initialize e s =
     (let s0 = oscall [GetPid] (s\<lparr>NVDAProcessID := PInt (getpid e)\<rparr>)
      in case fetchAppModuleClass e ''_default'' s0 of
           (Inl err, s1) \<Rightarrow> (Inl err, s1)
         | (Inr defaultModClass, s1) \<Rightarrow>
             (let s2 = (case defaultModClass of
                          AttrClass c \<Rightarrow>
                            (let (m, s') = AppModule_init e c (PStr ''_default'')
                                             (PInt (desktopWindow e)) (oscall [GetDesktopWindow] s1)
                             in s'\<lparr>defaultModule := Some m\<rparr>)
                        | _ \<Rightarrow> s1)
              in case defaultModule s2 of
                   Some d \<Rightarrow>
                     (case loadKeyMap e (PStr ''_default'') d s2 of
                        (Inl err, d', s3) \<Rightarrow> (Inl err, s3\<lparr>defaultModule := Some d'\<rparr>)
                      | (Inr True, d', s3) \<Rightarrow>
                          (Inr (), log INFO ''loaded default appModule'' []
                                     (s3\<lparr>defaultModule := Some d'\<rparr>))
                      | (Inr False, d', s3) \<Rightarrow>
                          (Inl (RuntimeError
                                  ''appModuleHandler.initialize: could not load default module keymap''),
                           speakMessage ''Could not load default module keyMap'' []
                             (s3\<lparr>defaultModule := Some d'\<rparr>)))
                 | None \<Rightarrow>
                     (Inl (RuntimeError
                             ''appModuleHandler.initialize: could not load default module ''),
                      speakMessage ''Could not load default module '' [] s2)))"

text \<open>
  \<open>getActiveModule\<close> calls \<^verbatim>\<open>getAppModuleFromWindow(fg)\<close>. The module defines no such
  name (it defines \<^verbatim>\<open>getAppModuleForNVDAObject\<close> and \<^verbatim>\<open>getAppModuleFromProcessID\<close>) and
  imports none, so the lookup of the global raises \<^verbatim>\<open>NameError\<close> once the foreground window
  has been read.
\<close>

definition getActiveModule :: "env \<Rightarrow> state \<Rightarrow> (pyerror + appmodule option) \<times> state" where
  "getActiveModule e s =
     (let fg = foregroundWindow e;
          s1 = oscall [GetForegroundWindow] s
      in (Inl (NameError ''getAppModuleFromWindow''), s1))"

section \<open>The claim about stripping the path, in the words of the specification\<close>

text \<open>
  Not part of the source: the specification says that the resolver strips the path from the
  executable's file name. \<open>strip_path\<close> is that step (\<^verbatim>\<open>ntpath.basename\<close>: what follows
  the last backslash or slash), to compare with what \<open>getAppNameFromProcessID\<close> returns.
\<close>

definition strip_path :: "string \<Rightarrow> string" where
  "strip_path p = drop (nat (max (rfind p backslash) (rfind p CHR ''/'') + 1)) p"

section \<open>Loading a key map, in the words of the specification\<close>

text \<open>
  Not part of the source: the specification describes the loading of a key map file as
  two steps, to compare with the loop \<open>bindLines\<close> of the source. First the lines that are
  neither comments nor blank and that match the pattern give their pairs of key and
  script, and every other line gives nothing (\<open>keyScriptPairs\<close>). Then every pair is
  bound in turn, whatever happened to the pairs before it; a binding that raises adds one
  error record and is not counted (\<open>bindPairs\<close>, which returns the module, the number of
  bindings made and the error records).
\<close>

definition keyScriptPairs :: "string list \<Rightarrow> (string \<times> string) list" where
  "keyScriptPairs ls =
     List.map_filter (\<lambda>l. if startswith_hash l \<or> isspace l then None else re_keyScript l) ls"

fun bindPairs ::
  "env \<Rightarrow> pyval \<Rightarrow> (string \<times> string) list \<Rightarrow> appmodule \<Rightarrow> appmodule \<times> nat \<times> logentry list" where
  "bindPairs e aName [] m = (m, 0, [])"
| "bindPairs e aName ((key, script) # ps) m =
     (case bindKey_runtime e m key script of
        (ok, m1) \<Rightarrow>
          (case bindPairs e aName ps m1 of
             (m', n, errs) \<Rightarrow>
               if ok then (m', Suc n, errs)
               else (m', n,
                     Log ERROR ''error binding %s to %s in module %s''
                       [PStr script, PStr key, aName] # errs)))"

section \<open>Concrete environments\<close>

text \<open>The globals as the module sets them when it is loaded.\<close>

definition state0 :: state where
  "state0 = \<lparr>runningTable = [], defaultModule = None, NVDAProcessID = PNone, logged = [],
     spoken = [], oscalls = [], lostFocus = [], nextIdent = 0\<rparr>"

text \<open>A binder that stores the pair in the key map and raises for the script \<open>nope\<close>.\<close>

definition bind0 :: "appmodule \<Rightarrow> string \<Rightarrow> string \<Rightarrow> bool \<times> appmodule" where
  "bind0 m key script =
     (if script = ''nope'' then (False, m)
      else (True,
            m\<lparr>keyMap :=
                Some ((case keyMap m of None \<Rightarrow> Map.empty | Some km \<Rightarrow> km)(key \<mapsto> script))\<rparr>))"

text \<open>
  An installation with no file under \<^verbatim>\<open>appModules\<close>, no process in the snapshot and every
  process handle unsignalled (\<^verbatim>\<open>WAIT_TIMEOUT\<close>, 258).
\<close>

definition env0 :: env where
  "env0 = \<lparr>files = Map.empty, importModule = (\<lambda>_. ImportRaises), snapshot = [],
     keyboardLayout = ''desktop'', foregroundWindow = 100, desktopWindow = 1, getpid = 42,
     openProcess = (\<lambda>_. 7), waitForSingleObject = (\<lambda>_. 258), bindKey_runtime = bind0,
     focusAppModules = [], hasAppLoseFocus = (\<lambda>_. False)\<rparr>"

definition mod0 :: appmodule where
  "mod0 = \<lparr>ident = 0, cls = AppModule, processID = PInt 4, appName = PStr ''app'',
     processHandle = 7, keyMap = Some [''ctrl+a'' \<mapsto> ''doSomething'']\<rparr>"

definition envLaptop :: env where
  "envLaptop = env0\<lparr>keyboardLayout := ''laptop''\<rparr>"

text \<open>The running table with one live module, for process 4.\<close>

definition state4 :: state where
  "state4 = state0\<lparr>runningTable := [(PInt 4, Some mod0)], nextIdent := 1\<rparr>"

text \<open>A key map file for \<open>app\<close> whose only line is \<^verbatim>\<open>bogusline\<close>, and an empty one.\<close>

definition envBogus :: env where
  "envBogus = env0\<lparr>files := [''appModules/app_desktop.kbd'' \<mapsto> [''bogusline'' @ [CHR 0x0A]]]\<rparr>"

definition envEmptyMap :: env where
  "envEmptyMap = env0\<lparr>files := [''appModules/app_desktop.kbd'' \<mapsto> []]\<rparr>"

text \<open>
  A key map file for \<open>app\<close> with a comment, a blank line, a line that does not match, a
  line whose binding raises and a line that binds.
\<close>

definition envMixed :: env where
  "envMixed = env0\<lparr>files := [''appModules/app_desktop.kbd'' \<mapsto>
     [''# keys'' @ [CHR 0x0A], [CHR 0x0A], ''bogusline'' @ [CHR 0x0A],
      ''ctrl+b = nope'' @ [CHR 0x0A], ''ctrl+c = other'' @ [CHR 0x0A]]]\<rparr>"

text \<open>
  An extension file \<^verbatim>\<open>broken.py\<close> whose import raises, and a process 9 running
  \<^verbatim>\<open>Broken.EXE\<close>.
\<close>

definition envBroken :: env where
  "envBroken = env0\<lparr>files := [''appModules/broken.py'' \<mapsto> [''def'']],
     snapshot := [(9, ''Broken.EXE'')]\<rparr>"

text \<open>
  An extension file \<^verbatim>\<open>foo.py\<close> that imports well and defines no \<^verbatim>\<open>AppModule\<close>.
\<close>

definition envNoSymbol :: env where
  "envNoSymbol = env0\<lparr>files := [''appModules/foo.py'' \<mapsto> [''pass'']],
     importModule := (\<lambda>_. Imported None)\<rparr>"

text \<open>
  An installation without \<^verbatim>\<open>appModules/_default.py\<close> that still has the key map file
  \<^verbatim>\<open>appModules/_default_desktop.kbd\<close>.
\<close>

definition envNoDefault :: env where
  "envNoDefault =
     env0\<lparr>files := [''appModules/_default_desktop.kbd'' \<mapsto> [''ctrl+a = doSomething'']]\<rparr>"

text \<open>A snapshot whose entry for process 7 holds a full path in \<^verbatim>\<open>szExeFile\<close>.\<close>

definition exePath :: string where
  "exePath = ''C:'' @ [backslash] @ ''Apps'' @ [backslash] @ ''Foo.EXE''"

definition envPath :: env where
  "envPath = env0\<lparr>snapshot := [(3, ''other.exe''), (7, exePath)]\<rparr>"

section \<open>Key map resolution\<close>

lemma getKeyMapFileName_unfold:
  "getKeyMapFileName e a layout s =
     (let f = keyMapPath a layout; fd = keyMapPath a ''desktop''; s1 = oscall [IsFile f] s
      in if isfile e f then (Some f, log DEBUG ''Found keymap file for %s at %s'' [a, PStr f] s1)
         else if layout = ''desktop'' then (None, log DEBUG ''No keymapFile for %s'' [a] s1)
         else (let s2 = oscall [IsFile fd] s1
               in if isfile e fd
                  then (Some fd, log DEBUG ''Found keymap file for %s at %s'' [a, PStr fd] s2)
                  else (None, log DEBUG ''No keymapFile for %s'' [a] s2)))"
  apply (subst getKeyMapFileName.simps)
  apply (subst getKeyMapFileName.simps)
  apply (simp add: Let_def)
  done

lemma getKeyMapFileName_fst:
  "fst (getKeyMapFileName e a layout s) =
     (if isfile e (keyMapPath a layout) then Some (keyMapPath a layout)
      else if layout \<noteq> ''desktop'' \<and> isfile e (keyMapPath a ''desktop'')
      then Some (keyMapPath a ''desktop'') else None)"
  by (simp add: getKeyMapFileName_unfold Let_def)

lemma getKeyMapFileName_Some_isfile:
  "fst (getKeyMapFileName e a layout s) = Some f \<Longrightarrow> isfile e f"
  by (simp add: getKeyMapFileName_fst split: if_splits)

lemma loadKeyMap_cases:
  "loadKeyMap e a m s =
     (case getKeyMapFileName e a (keyboardLayout e) s of
        (None, s1) \<Rightarrow> (Inr False, m, s1)
      | (Some f, s1) \<Rightarrow>
          (case files e f of
             None \<Rightarrow> (Inl (IOError f), m, oscall [OpenFile f] s1)
           | Some ls \<Rightarrow>
               (case bindLines e a ls (clearKeyMap m, 0, oscall [OpenFile f] s1) of
                  (m', n, s3) \<Rightarrow>
                    (Inr True, m',
                     log DEBUG ''added %s bindings to module %s from file %s''
                       [PInt (int n), a, PStr f] s3))))"
  by (simp add: loadKeyMap_def Let_def split: prod.splits option.splits)

lemma loadKeyMap_fst:
  "fst (loadKeyMap e a m s) = Inr (fst (getKeyMapFileName e a (keyboardLayout e) s) \<noteq> None)"
proof (cases "getKeyMapFileName e a (keyboardLayout e) s")
  case (Pair r s1)
  show ?thesis
  proof (cases r)
    case None
    with Pair show ?thesis by (simp add: loadKeyMap_cases)
  next
    case (Some f)
    with Pair have "isfile e f"
      using getKeyMapFileName_Some_isfile [of e a "keyboardLayout e" s f] by simp
    then obtain ls where "files e f = Some ls" by (auto simp: isfile_def)
    with Pair Some show ?thesis
      by (simp add: loadKeyMap_cases split: prod.splits)
  qed
qed

text \<open>
  Claim C6: for every application name and requested layout, the resolution first probes the
  file \<^verbatim>\<open>appModules/<appName>_<layout>.kbd\<close>; if it is absent and the layout is not
  \<^verbatim>\<open>desktop\<close>, it probes the file of the layout \<^verbatim>\<open>desktop\<close> next; and when the resolution
  finds no file, \<open>loadKeyMap\<close> returns \<^verbatim>\<open>False\<close>, hands the module back as it was and leaves
  the state as the resolution left it (no file opened, nothing bound).
\<close>

theorem getKeyMapFileName_fallback:
  "fst (getKeyMapFileName e a layout s) =
     (if isfile e (keyMapPath a layout) then Some (keyMapPath a layout)
      else if layout \<noteq> ''desktop'' \<and> isfile e (keyMapPath a ''desktop'')
      then Some (keyMapPath a ''desktop'') else None) \<and>
   oscalls (snd (getKeyMapFileName e a layout s)) =
     oscalls s @
     (if isfile e (keyMapPath a layout) \<or> layout = ''desktop''
      then [IsFile (keyMapPath a layout)]
      else [IsFile (keyMapPath a layout), IsFile (keyMapPath a ''desktop'')]) \<and>
   (fst (getKeyMapFileName e a (keyboardLayout e) s) = None \<longrightarrow>
      loadKeyMap e a m s = (Inr False, m, snd (getKeyMapFileName e a (keyboardLayout e) s)))"
proof (intro conjI impI)
  show "fst (getKeyMapFileName e a layout s) =
     (if isfile e (keyMapPath a layout) then Some (keyMapPath a layout)
      else if layout \<noteq> ''desktop'' \<and> isfile e (keyMapPath a ''desktop'')
      then Some (keyMapPath a ''desktop'') else None)"
    by (rule getKeyMapFileName_fst)
  show "oscalls (snd (getKeyMapFileName e a layout s)) =
     oscalls s @
     (if isfile e (keyMapPath a layout) \<or> layout = ''desktop''
      then [IsFile (keyMapPath a layout)]
      else [IsFile (keyMapPath a layout), IsFile (keyMapPath a ''desktop'')])"
    by (simp add: getKeyMapFileName_unfold Let_def oscall_def log_def)
  assume "fst (getKeyMapFileName e a (keyboardLayout e) s) = None"
  then show "loadKeyMap e a m s = (Inr False, m, snd (getKeyMapFileName e a (keyboardLayout e) s))"
    by (cases "getKeyMapFileName e a (keyboardLayout e) s") (simp add: loadKeyMap_cases)
qed

theorem getKeyMapFileName_fallback_witness:
  "fst (getKeyMapFileName envLaptop (PStr ''app'') (keyboardLayout envLaptop) state0) = None \<and>
   oscalls (snd (getKeyMapFileName envLaptop (PStr ''app'') ''laptop'' state0)) =
     [IsFile ''appModules/app_laptop.kbd'', IsFile ''appModules/app_desktop.kbd''] \<and>
   fst (loadKeyMap envLaptop (PStr ''app'') mod0 state0) = Inr False \<and>
   fst (snd (loadKeyMap envLaptop (PStr ''app'') mod0 state0)) = mod0"
  using getKeyMapFileName_fallback [of envLaptop "PStr ''app''" "''laptop''" state0 mod0]
  by (simp add: envLaptop_def env0_def state0_def isfile_def keyMapPath_def py_str_def)

text \<open>
  Claim C10: when neither the file of the configured layout nor the file of the layout
  \<^verbatim>\<open>desktop\<close> exists, \<open>loadKeyMap\<close> returns \<^verbatim>\<open>False\<close> and the module, its key map
  included, is exactly what it was; and whenever the call changes the module at all, a key
  map file had been found (the call returns \<^verbatim>\<open>True\<close>).
\<close>

theorem loadKeyMap_no_file_keeps_module:
  "(\<not> isfile e (keyMapPath aName (keyboardLayout e)) \<and> \<not> isfile e (keyMapPath aName ''desktop'') \<longrightarrow>
      fst (loadKeyMap e aName m s) = Inr False \<and> fst (snd (loadKeyMap e aName m s)) = m) \<and>
   (fst (snd (loadKeyMap e aName m s)) \<noteq> m \<longrightarrow> fst (loadKeyMap e aName m s) = Inr True)"
proof -
  have none: "fst (loadKeyMap e aName m s) = Inr False \<and> fst (snd (loadKeyMap e aName m s)) = m"
    if "fst (getKeyMapFileName e aName (keyboardLayout e) s) = None"
  proof -
    from that obtain s1 where "getKeyMapFileName e aName (keyboardLayout e) s = (None, s1)"
      by (cases "getKeyMapFileName e aName (keyboardLayout e) s") simp
    then show ?thesis by (simp add: loadKeyMap_cases)
  qed
  have absent: "fst (loadKeyMap e aName m s) = Inr False \<and> fst (snd (loadKeyMap e aName m s)) = m"
    if "\<not> isfile e (keyMapPath aName (keyboardLayout e)) \<and> \<not> isfile e (keyMapPath aName ''desktop'')"
    using that by (intro none) (simp add: getKeyMapFileName_fst)
  have changed: "fst (loadKeyMap e aName m s) = Inr True"
    if "fst (snd (loadKeyMap e aName m s)) \<noteq> m"
  proof (cases "fst (getKeyMapFileName e aName (keyboardLayout e) s)")
    case None
    with none that show ?thesis by simp
  next
    case (Some f)
    then show ?thesis by (simp add: loadKeyMap_fst)
  qed
  from absent changed show ?thesis by blast
qed

theorem loadKeyMap_no_file_keeps_module_witness:
  "\<not> isfile envLaptop (keyMapPath (PStr ''app'') (keyboardLayout envLaptop)) \<and>
   \<not> isfile envLaptop (keyMapPath (PStr ''app'') ''desktop'') \<and>
   fst (loadKeyMap envLaptop (PStr ''app'') mod0 state0) = Inr False \<and>
   fst (snd (loadKeyMap envLaptop (PStr ''app'') mod0 state0)) = mod0 \<and>
   keyMap (fst (snd (loadKeyMap envLaptop (PStr ''app'') mod0 state0))) =
     Some [''ctrl+a'' \<mapsto> ''doSomething'']"
  using loadKeyMap_no_file_keeps_module [of envLaptop "PStr ''app''" mod0 state0]
  by (simp add: envLaptop_def env0_def isfile_def mod0_def)

lemma re_keyScript_bogusline: "re_keyScript (''bogusline'' @ [CHR 0x0A]) = None"
  by (simp add: re_keyScript_def isspace_chr_def matchAfterKey_def)

lemma re_keyScript_nope_nl:
  "re_keyScript (''ctrl+b = nope'' @ [CHR 0x0A]) = Some (''ctrl+b'', ''nope'')"
  by (simp add: re_keyScript_def isspace_chr_def matchAfterKey_def)

lemma re_keyScript_other_nl:
  "re_keyScript (''ctrl+c = other'' @ [CHR 0x0A]) = Some (''ctrl+c'', ''other'')"
  by (simp add: re_keyScript_def isspace_chr_def matchAfterKey_def)

lemma keyScriptPairs_Nil: "keyScriptPairs [] = []"
  by (simp add: keyScriptPairs_def map_filter_simps)

lemma keyScriptPairs_Cons:
  "keyScriptPairs (l # ls) =
     (if startswith_hash l \<or> isspace l then keyScriptPairs ls
      else case re_keyScript l of None \<Rightarrow> keyScriptPairs ls | Some p \<Rightarrow> p # keyScriptPairs ls)"
  by (simp add: keyScriptPairs_def map_filter_simps split: option.splits)

lemma keyScriptPairs_append:
  "keyScriptPairs (xs @ ys) = keyScriptPairs xs @ keyScriptPairs ys"
  by (simp add: keyScriptPairs_def map_filter_def)

lemma bindLines_bindPairs:
  "bindLines e a ls (m, n0, s) =
     (case bindPairs e a (keyScriptPairs ls) m of
        (m', n, errs) \<Rightarrow> (m', n0 + n, s\<lparr>logged := logged s @ errs\<rparr>))"
proof (induction ls arbitrary: m n0 s)
  case Nil
  then show ?case by (simp add: keyScriptPairs_Nil)
next
  case (Cons l ls)
  show ?case
  proof (cases "startswith_hash l \<or> isspace l")
    case True
    then show ?thesis using Cons.IH [of m n0 s] by (simp add: keyScriptPairs_Cons)
  next
    case False
    show ?thesis
    proof (cases "re_keyScript l")
      case None
      with False show ?thesis using Cons.IH [of m n0 s] by (simp add: keyScriptPairs_Cons)
    next
      case (Some p)
      obtain key script where p: "p = (key, script)" by (cases p)
      obtain ok m1 where b: "bindKey_runtime e m key script = (ok, m1)"
        by (cases "bindKey_runtime e m key script")
      obtain m' n errs where r: "bindPairs e a (keyScriptPairs ls) m1 = (m', n, errs)"
        by (cases "bindPairs e a (keyScriptPairs ls) m1") auto
      show ?thesis
      proof (cases ok)
        case True
        with False Some p b r Cons.IH [of m1 "n0 + 1" s] show ?thesis
          by (simp add: keyScriptPairs_Cons)
      next
        case False
        with \<open>\<not> (startswith_hash l \<or> isspace l)\<close> Some p b r
          Cons.IH [of m1 n0 "log ERROR ''error binding %s to %s in module %s'' [PStr script, PStr key, a] s"]
        show ?thesis
          by (simp add: keyScriptPairs_Cons log_def)
      qed
    qed
  qed
qed

lemma bindPairs_count:
  "bindPairs e a ps m = (m', n, errs) \<Longrightarrow> n + length errs = length ps"
proof (induction ps arbitrary: m m' n errs)
  case Nil
  then show ?case by simp
next
  case (Cons p ps)
  obtain key script where p: "p = (key, script)" by (cases p)
  obtain ok m1 where b: "bindKey_runtime e m key script = (ok, m1)"
    by (cases "bindKey_runtime e m key script")
  obtain m2 n2 errs2 where r: "bindPairs e a ps m1 = (m2, n2, errs2)"
    by (cases "bindPairs e a ps m1") auto
  from Cons.IH [OF r] have "n2 + length errs2 = length ps" .
  with Cons.prems p b r show ?case by (cases ok) auto
qed

lemma getKeyMapFileName_isfile_cong:
  "(\<And>p. isfile e' p = isfile e p) \<Longrightarrow>
   getKeyMapFileName e' a layout s = getKeyMapFileName e a layout s"
  by (simp add: getKeyMapFileName_unfold Let_def)

lemma bindPairs_env_cong:
  "bindKey_runtime e' = bindKey_runtime e \<Longrightarrow> bindPairs e' a ps m = bindPairs e a ps m"
  by (induction ps arbitrary: m) (auto split: prod.splits)

lemma keyScriptPairs_skip:
  "startswith_hash l \<or> isspace l \<or> re_keyScript l = None \<Longrightarrow>
   keyScriptPairs (ls1 @ l # ls2) = keyScriptPairs (ls1 @ ls2)"
  by (auto simp: keyScriptPairs_append keyScriptPairs_Cons)

lemma loadKeyMap_drop_line:
  assumes fl: "files e f = Some (ls1 @ l # ls2)"
    and l: "startswith_hash l \<or> isspace l \<or> re_keyScript l = None"
  shows "loadKeyMap (e\<lparr>files := (files e)(f \<mapsto> ls1 @ ls2)\<rparr>) a m s = loadKeyMap e a m s"
proof -
  let ?e' = "e\<lparr>files := (files e)(f \<mapsto> ls1 @ ls2)\<rparr>"
  have isf: "\<And>p. isfile ?e' p = isfile e p"
    using fl by (simp add: isfile_def)
  have g: "getKeyMapFileName ?e' a (keyboardLayout ?e') s = getKeyMapFileName e a (keyboardLayout e) s"
    using getKeyMapFileName_isfile_cong [of ?e' e a "keyboardLayout e" s] isf by simp
  have bp: "\<And>ps m. bindPairs ?e' a ps m = bindPairs e a ps m"
    by (rule bindPairs_env_cong) simp
  show ?thesis
  proof (cases "getKeyMapFileName e a (keyboardLayout e) s")
    case (Pair r s1)
    show ?thesis
    proof (cases r)
      case None
      with Pair g show ?thesis by (simp add: loadKeyMap_cases)
    next
      case (Some f')
      show ?thesis
      proof (cases "f' = f")
        case True
        with Pair Some g fl keyScriptPairs_skip [OF l, of ls1 ls2] show ?thesis
          by (simp add: loadKeyMap_cases bindLines_bindPairs bp)
      next
        case False
        with Pair Some g show ?thesis
          by (simp add: loadKeyMap_cases bindLines_bindPairs bp split: option.splits)
      qed
    qed
  qed
qed

lemma keyScriptPairs_mixed:
  "keyScriptPairs [''# keys'' @ [CHR 0x0A], [CHR 0x0A], ''bogusline'' @ [CHR 0x0A],
      ''ctrl+b = nope'' @ [CHR 0x0A], ''ctrl+c = other'' @ [CHR 0x0A]] =
   [(''ctrl+b'', ''nope''), (''ctrl+c'', ''other'')]"
  using re_keyScript_bogusline re_keyScript_nope_nl re_keyScript_other_nl
  by (simp add: keyScriptPairs_Cons keyScriptPairs_Nil startswith_hash_def isspace_def
        isspace_chr_def)

text \<open>
  Claim C7, as the code has it. When the resolution finds no file, \<open>loadKeyMap\<close> returns
  \<^verbatim>\<open>False\<close>. When it finds the file \<open>f\<close>, the call opens it, clears a key map the
  module already has, binds the pairs of the matching lines in their order and returns
  \<^verbatim>\<open>True\<close>, whatever the number of bindings made: the module is the one the bindings
  leave, every pair was either bound or logged as an error, and the log gains those error
  records and the closing record with the count, and nothing else. And a line that does not
  match (or a comment, or a blank line) adds no log record and has no other effect,
  wherever it stands: with that line taken out of the file, \<open>loadKeyMap\<close> returns the
  same result, the same module and the same state.
\<close>

theorem loadKeyMap_processes_file:
  "(fst (getKeyMapFileName e a (keyboardLayout e) s) = None \<longrightarrow>
      fst (loadKeyMap e a m s) = Inr False) \<and>
   (getKeyMapFileName e a (keyboardLayout e) s = (Some f, s1) \<longrightarrow>
      (\<exists>ls m' n errs.
         files e f = Some ls \<and>
         bindPairs e a (keyScriptPairs ls) (clearKeyMap m) = (m', n, errs) \<and>
         n + length errs = length (keyScriptPairs ls) \<and>
         loadKeyMap e a m s =
           (Inr True, m',
            s1\<lparr>oscalls := oscalls s1 @ [OpenFile f],
               logged := logged s1 @ errs @
                 [Log DEBUG ''added %s bindings to module %s from file %s''
                    [PInt (int n), a, PStr f]]\<rparr>))) \<and>
   (files e f = Some (ls1 @ l # ls2) \<and>
    (startswith_hash l \<or> isspace l \<or> re_keyScript l = None) \<longrightarrow>
      loadKeyMap (e\<lparr>files := (files e)(f \<mapsto> ls1 @ ls2)\<rparr>) a m s = loadKeyMap e a m s)"
proof (intro conjI impI)
  assume "fst (getKeyMapFileName e a (keyboardLayout e) s) = None"
  then show "fst (loadKeyMap e a m s) = Inr False"
    by (simp add: loadKeyMap_fst)
next
  assume g: "getKeyMapFileName e a (keyboardLayout e) s = (Some f, s1)"
  then have "isfile e f"
    using getKeyMapFileName_Some_isfile [of e a "keyboardLayout e" s f] by simp
  then obtain ls where ls: "files e f = Some ls" by (auto simp: isfile_def)
  obtain m' n errs where b: "bindPairs e a (keyScriptPairs ls) (clearKeyMap m) = (m', n, errs)"
    by (cases "bindPairs e a (keyScriptPairs ls) (clearKeyMap m)") auto
  have c: "n + length errs = length (keyScriptPairs ls)"
    using bindPairs_count [OF b] .
  have "loadKeyMap e a m s =
           (Inr True, m',
            s1\<lparr>oscalls := oscalls s1 @ [OpenFile f],
               logged := logged s1 @ errs @
                 [Log DEBUG ''added %s bindings to module %s from file %s''
                    [PInt (int n), a, PStr f]]\<rparr>)"
    using g ls b by (simp add: loadKeyMap_cases bindLines_bindPairs log_def oscall_def)
  with ls b c show "\<exists>ls m' n errs.
         files e f = Some ls \<and>
         bindPairs e a (keyScriptPairs ls) (clearKeyMap m) = (m', n, errs) \<and>
         n + length errs = length (keyScriptPairs ls) \<and>
         loadKeyMap e a m s =
           (Inr True, m',
            s1\<lparr>oscalls := oscalls s1 @ [OpenFile f],
               logged := logged s1 @ errs @
                 [Log DEBUG ''added %s bindings to module %s from file %s''
                    [PInt (int n), a, PStr f]]\<rparr>)"
    by blast
next
  assume "files e f = Some (ls1 @ l # ls2) \<and>
    (startswith_hash l \<or> isspace l \<or> re_keyScript l = None)"
  then show "loadKeyMap (e\<lparr>files := (files e)(f \<mapsto> ls1 @ ls2)\<rparr>) a m s = loadKeyMap e a m s"
    by (simp add: loadKeyMap_drop_line)
qed

theorem loadKeyMap_processes_file_witness:
  "fst (getKeyMapFileName envLaptop (PStr ''app'') (keyboardLayout envLaptop) state0) = None \<and>
   fst (loadKeyMap envLaptop (PStr ''app'') mod0 state0) = Inr False \<and>
   fst (getKeyMapFileName envMixed (PStr ''app'') (keyboardLayout envMixed) state0) =
     Some ''appModules/app_desktop.kbd'' \<and>
   fst (loadKeyMap envMixed (PStr ''app'') mod0 state0) = Inr True \<and>
   keyMap (fst (snd (loadKeyMap envMixed (PStr ''app'') mod0 state0))) =
     Some [''ctrl+c'' \<mapsto> ''other''] \<and>
   logged (snd (snd (loadKeyMap envMixed (PStr ''app'') mod0 state0))) =
     [Log DEBUG ''Found keymap file for %s at %s''
        [PStr ''app'', PStr ''appModules/app_desktop.kbd''],
      Log ERROR ''error binding %s to %s in module %s''
        [PStr ''nope'', PStr ''ctrl+b'', PStr ''app''],
      Log DEBUG ''added %s bindings to module %s from file %s''
        [PInt 1, PStr ''app'', PStr ''appModules/app_desktop.kbd'']] \<and>
   files envMixed ''appModules/app_desktop.kbd'' =
     Some ([''# keys'' @ [CHR 0x0A], [CHR 0x0A]] @ (''bogusline'' @ [CHR 0x0A]) #
           [''ctrl+b = nope'' @ [CHR 0x0A], ''ctrl+c = other'' @ [CHR 0x0A]]) \<and>
   re_keyScript (''bogusline'' @ [CHR 0x0A]) = None \<and>
   loadKeyMap
     (envMixed\<lparr>files := (files envMixed)(''appModules/app_desktop.kbd'' \<mapsto>
        [''# keys'' @ [CHR 0x0A], [CHR 0x0A]] @
        [''ctrl+b = nope'' @ [CHR 0x0A], ''ctrl+c = other'' @ [CHR 0x0A]])\<rparr>)
     (PStr ''app'') mod0 state0 =
   loadKeyMap envMixed (PStr ''app'') mod0 state0"
proof -
  let ?f = "''appModules/app_desktop.kbd''"
  let ?g = "getKeyMapFileName envMixed (PStr ''app'') (keyboardLayout envMixed) state0"
  let ?ls1 = "[''# keys'' @ [CHR 0x0A], [CHR 0x0A]]"
  let ?ls2 = "[''ctrl+b = nope'' @ [CHR 0x0A], ''ctrl+c = other'' @ [CHR 0x0A]]"
  let ?l = "''bogusline'' @ [CHR 0x0A]"
  have none: "fst (getKeyMapFileName envLaptop (PStr ''app'') (keyboardLayout envLaptop) state0) = None"
    by (simp add: getKeyMapFileName_fst envLaptop_def env0_def isfile_def keyMapPath_def py_str_def)
  have found: "fst ?g = Some ?f"
    by (simp add: getKeyMapFileName_fst envMixed_def env0_def isfile_def keyMapPath_def py_str_def)
  then have g: "?g = (Some ?f, snd ?g)"
    by (metis prod.collapse)
  have lg: "logged (snd ?g) =
     [Log DEBUG ''Found keymap file for %s at %s'' [PStr ''app'', PStr ?f]]"
    by (simp add: getKeyMapFileName_unfold envMixed_def env0_def state0_def isfile_def
          keyMapPath_def py_str_def Let_def log_def oscall_def)
  have fl: "files envMixed ?f = Some (?ls1 @ ?l # ?ls2)"
    by (simp add: envMixed_def)
  have ps: "keyScriptPairs (?ls1 @ ?l # ?ls2) = [(''ctrl+b'', ''nope''), (''ctrl+c'', ''other'')]"
    using keyScriptPairs_mixed by simp
  have bp: "bindPairs envMixed (PStr ''app'') [(''ctrl+b'', ''nope''), (''ctrl+c'', ''other'')]
      (clearKeyMap mod0) =
     (mod0\<lparr>keyMap := Some [''ctrl+c'' \<mapsto> ''other'']\<rparr>, 1,
      [Log ERROR ''error binding %s to %s in module %s''
         [PStr ''nope'', PStr ''ctrl+b'', PStr ''app'']])"
    by (simp add: envMixed_def env0_def bind0_def clearKeyMap_def mod0_def)
  from loadKeyMap_processes_file [where e = envLaptop and a = "PStr ''app''" and s = state0
      and m = mod0] none
  have no: "fst (loadKeyMap envLaptop (PStr ''app'') mod0 state0) = Inr False"
    by simp
  note inst = loadKeyMap_processes_file [where e = envMixed and a = "PStr ''app''"
      and s = state0 and m = mod0 and f = ?f and ?s1.0 = "snd ?g" and l = ?l
      and ?ls1.0 = ?ls1 and ?ls2.0 = ?ls2]
  from inst g fl ps bp
  have yes: "loadKeyMap envMixed (PStr ''app'') mod0 state0 =
     (Inr True, mod0\<lparr>keyMap := Some [''ctrl+c'' \<mapsto> ''other'']\<rparr>,
      (snd ?g)\<lparr>oscalls := oscalls (snd ?g) @ [OpenFile ?f],
         logged := logged (snd ?g) @
           [Log ERROR ''error binding %s to %s in module %s''
              [PStr ''nope'', PStr ''ctrl+b'', PStr ''app''],
            Log DEBUG ''added %s bindings to module %s from file %s''
              [PInt 1, PStr ''app'', PStr ?f]]\<rparr>)"
    by auto
  from inst fl re_keyScript_bogusline
  have skip: "loadKeyMap (envMixed\<lparr>files := (files envMixed)(?f \<mapsto> ?ls1 @ ?ls2)\<rparr>)
      (PStr ''app'') mod0 state0 = loadKeyMap envMixed (PStr ''app'') mod0 state0"
    by simp
  from none no found yes skip lg fl re_keyScript_bogusline show ?thesis
    by simp
qed

text \<open>
  Against claim C7 as stated (every non-matching line is skipped with a logged diagnostic):
  for a file whose only line is \<^verbatim>\<open>bogusline\<close>, the call returns \<^verbatim>\<open>True\<close> and the log
  holds the two records that it holds for an empty file, none of them about the line.
\<close>

theorem loadKeyMap_bogusline_not_logged:
  "fst (loadKeyMap envBogus (PStr ''app'') mod0 state0) = Inr True \<and>
   logged (snd (snd (loadKeyMap envBogus (PStr ''app'') mod0 state0))) =
     [Log DEBUG ''Found keymap file for %s at %s''
        [PStr ''app'', PStr ''appModules/app_desktop.kbd''],
      Log DEBUG ''added %s bindings to module %s from file %s''
        [PInt 0, PStr ''app'', PStr ''appModules/app_desktop.kbd'']] \<and>
   logged (snd (snd (loadKeyMap envBogus (PStr ''app'') mod0 state0))) =
   logged (snd (snd (loadKeyMap envEmptyMap (PStr ''app'') mod0 state0)))"
  using re_keyScript_bogusline
  by (simp add: loadKeyMap_cases getKeyMapFileName_unfold envBogus_def envEmptyMap_def env0_def
        state0_def isfile_def keyMapPath_def py_str_def Let_def log_def oscall_def
        startswith_hash_def isspace_def isspace_chr_def)

section \<open>The running table\<close>

text \<open>
  Claim C5: for every process ID under which the running table holds a module instance,
  \<open>getAppModuleFromProcessID\<close> returns that very instance and leaves the whole state as it
  was: no call into the OS (so no liveness check), no new object, no log record, the table
  unchanged. Any number of further calls therefore returns the same instance, as long as
  nothing removes the entry.
\<close>

theorem getAppModuleFromProcessID_cached:
  "map_of (runningTable s) procID = Some (Some m) \<Longrightarrow>
   getAppModuleFromProcessID e procID s = (Inr (Some m), s)"
  by (simp add: getAppModuleFromProcessID_def)

theorem getAppModuleFromProcessID_cached_witness:
  "map_of (runningTable state4) (PInt 4) = Some (Some mod0) \<and>
   getAppModuleFromProcessID env0 (PInt 4) state4 = (Inr (Some mod0), state4)"
  using getAppModuleFromProcessID_cached [of state4 "PInt 4" mod0 env0]
  by (simp add: state4_def)

section \<open>The active module\<close>

text \<open>
  Claim C9 (what the code does): every call of \<open>getActiveModule\<close> reads the foreground
  window and then raises \<^verbatim>\<open>NameError\<close> for the undefined name
  \<^verbatim>\<open>getAppModuleFromWindow\<close>; it never reaches \<open>getAppModuleFromProcessID\<close>, returns no
  module and leaves the running table as it was.
\<close>

theorem getActiveModule_raises:
  "fst (getActiveModule e s) = Inl (NameError ''getAppModuleFromWindow'') \<and>
   runningTable (snd (getActiveModule e s)) = runningTable s \<and>
   oscalls (snd (getActiveModule e s)) = oscalls s @ [GetForegroundWindow]"
  by (simp add: getActiveModule_def oscall_def Let_def)

section \<open>Refreshing the running table\<close>

text \<open>
  When every entry of the running table is a live instance, the list of dead modules is
  empty and \<open>update\<close> returns with the table as it was, whatever process it is called
  for.
\<close>

lemma deadModules_all_alive:
  "\<forall>v \<in> set vs. \<exists>m. v = Some m \<and> isAlive e m \<Longrightarrow>
   \<exists>s'. deadModules e vs s = (Inr [], s') \<and> runningTable s' = runningTable s"
proof (induction vs arbitrary: s)
  case Nil
  then show ?case by simp
next
  case (Cons v vs)
  then obtain m where v: "v = Some m" and alive: "isAlive e m" by auto
  from Cons obtain s' where
    "deadModules e vs (oscall [WaitForSingleObject (processHandle m)] s) = (Inr [], s')"
    and "runningTable s' = runningTable (oscall [WaitForSingleObject (processHandle m)] s)"
    by (metis list.set_intros(2))
  with v alive show ?case by (simp add: oscall_def)
qed

lemma update_all_alive:
  assumes "\<forall>v \<in> set (map snd (runningTable s)). \<exists>m. v = Some m \<and> isAlive e m"
  shows "fst (update e procID s) = Inr () \<and> runningTable (snd (update e procID s)) = runningTable s"
proof -
  from deadModules_all_alive [OF assms, of s] obtain s' where
    "deadModules e (map snd (runningTable s)) s = (Inr [], s')" and "runningTable s' = runningTable s"
    by blast
  then show ?thesis by (simp add: update_def)
qed

text \<open>
  Claim C4 at an input where the code departs from it: the running table holds one live
  module, for process 4, and \<open>update\<close> is called for process 5. No module is dead, the
  loop body never runs, and so \<open>getAppModuleFromProcessID\<close> is never called: process 5
  has no entry afterwards, although a direct call would have made one.
\<close>

theorem update_without_dead_module_binds_nothing:
  "fst (update env0 (PInt 5) state4) = Inr () \<and>
   map fst (runningTable (snd (update env0 (PInt 5) state4))) = [PInt 4] \<and>
   oscalls (snd (update env0 (PInt 5) state4)) = [WaitForSingleObject 7] \<and>
   \<not> isl (fst (getAppModuleFromProcessID env0 (PInt 5) state4)) \<and>
   map fst (runningTable (snd (getAppModuleFromProcessID env0 (PInt 5) state4))) = [PInt 4, PInt 5]"
  by code_simp

section \<open>Discovery and loading\<close>

lemma fetchAppModuleClass_unfold:
  "fetchAppModuleClass e a s =
     (let s1 = log DEBUG ''Does appModules/%s.py exist: %s''
                 [PStr a, str_of_bool (isfile e (modulePath a))]
                 (oscall [IsFile (modulePath a)] s)
      in if isfile e (modulePath a) then
           (case importModule e a of
              Imported (Some v) \<Rightarrow> (Inr (orAppModule v), s1)
            | _ \<Rightarrow> (Inl (RuntimeError []),
                    speakMessage ''Error in appModule %s'' [PStr a]
                      (log ERROR ''Error in appModule %s'' [PStr a] s1)))
         else (Inr (AttrClass AppModule), s1))"
  by (simp add: fetchAppModuleClass_def moduleExists_def Let_def orAppModule_def
        split: import_result.splits option.splits)

lemma getAppNameFromProcessID_runningTable:
  "runningTable (snd (getAppNameFromProcessID e p incl s)) = runningTable s"
  by (simp add: getAppNameFromProcessID_def Let_def log_def oscall_def split: prod.splits)

lemma fetchAppModuleClass_fails:
  assumes "isfile e (modulePath a)" and "\<forall>v. importModule e a \<noteq> Imported (Some v)"
  shows "fetchAppModuleClass e a s =
     (Inl (RuntimeError []),
      speakMessage ''Error in appModule %s'' [PStr a]
        (log ERROR ''Error in appModule %s'' [PStr a]
          (log DEBUG ''Does appModules/%s.py exist: %s'' [PStr a, PStr ''True'']
            (oscall [IsFile (modulePath a)] s))))"
proof (cases "importModule e a")
  case ImportRaises
  with assms show ?thesis by (simp add: fetchAppModuleClass_unfold str_of_bool_def)
next
  case (Imported x)
  with assms have "x = None" by (cases x) auto
  with Imported assms show ?thesis by (simp add: fetchAppModuleClass_unfold str_of_bool_def)
qed

text \<open>
  Claim C1: for every application name, when no file \<^verbatim>\<open>appModules/<name>.py\<close> exists,
  \<open>fetchAppModuleClass\<close> returns the base class \<open>AppModule\<close>, speaks nothing and logs
  only the debug record of the existence test; when the file exists and loading it does not
  yield the exported class, it logs an error, speaks the error message and raises
  \<^verbatim>\<open>RuntimeError\<close>, and the caller \<open>getAppModuleFromProcessID\<close>, on a miss for a process
  of that name, raises the same error and leaves the running table as it was (no fallback
  to the base class).
\<close>

theorem fetchAppModuleClass_absent_or_broken:
  "(\<not> isfile e (modulePath aName) \<longrightarrow>
      fst (fetchAppModuleClass e aName s) = Inr (AttrClass AppModule) \<and>
      spoken (snd (fetchAppModuleClass e aName s)) = spoken s \<and>
      logged (snd (fetchAppModuleClass e aName s)) =
        logged s @ [Log DEBUG ''Does appModules/%s.py exist: %s'' [PStr aName, PStr ''False'']]) \<and>
   (isfile e (modulePath aName) \<and> (\<forall>v. importModule e aName \<noteq> Imported (Some v)) \<longrightarrow>
      fst (fetchAppModuleClass e aName s) = Inl (RuntimeError []) \<and>
      logged (snd (fetchAppModuleClass e aName s)) =
        logged s @ [Log DEBUG ''Does appModules/%s.py exist: %s'' [PStr aName, PStr ''True''],
                    Log ERROR ''Error in appModule %s'' [PStr aName]] \<and>
      spoken (snd (fetchAppModuleClass e aName s)) =
        spoken s @ [Speak ''Error in appModule %s'' [PStr aName]] \<and>
      (\<forall>procID s0.
         (\<forall>m. map_of (runningTable s0) procID \<noteq> Some (Some m)) \<and>
         fst (getAppNameFromProcessID e procID False s0) = aName \<longrightarrow>
           fst (getAppModuleFromProcessID e procID s0) = Inl (RuntimeError []) \<and>
           runningTable (snd (getAppModuleFromProcessID e procID s0)) = runningTable s0))"
proof (intro conjI impI allI)
  assume "\<not> isfile e (modulePath aName)"
  then show "fst (fetchAppModuleClass e aName s) = Inr (AttrClass AppModule)"
    and "spoken (snd (fetchAppModuleClass e aName s)) = spoken s"
    and "logged (snd (fetchAppModuleClass e aName s)) =
        logged s @ [Log DEBUG ''Does appModules/%s.py exist: %s'' [PStr aName, PStr ''False'']]"
    by (simp_all add: fetchAppModuleClass_unfold log_def oscall_def str_of_bool_def)
next
  assume "isfile e (modulePath aName) \<and> (\<forall>v. importModule e aName \<noteq> Imported (Some v))"
  then have f: "\<And>s. fetchAppModuleClass e aName s =
     (Inl (RuntimeError []),
      speakMessage ''Error in appModule %s'' [PStr aName]
        (log ERROR ''Error in appModule %s'' [PStr aName]
          (log DEBUG ''Does appModules/%s.py exist: %s'' [PStr aName, PStr ''True'']
            (oscall [IsFile (modulePath aName)] s))))"
    by (simp add: fetchAppModuleClass_fails)
  show "fst (fetchAppModuleClass e aName s) = Inl (RuntimeError [])"
    and "logged (snd (fetchAppModuleClass e aName s)) =
        logged s @ [Log DEBUG ''Does appModules/%s.py exist: %s'' [PStr aName, PStr ''True''],
                    Log ERROR ''Error in appModule %s'' [PStr aName]]"
    and "spoken (snd (fetchAppModuleClass e aName s)) =
        spoken s @ [Speak ''Error in appModule %s'' [PStr aName]]"
    by (simp_all add: f log_def oscall_def speakMessage_def)
  fix procID s0
  assume miss: "(\<forall>m. map_of (runningTable s0) procID \<noteq> Some (Some m)) \<and>
         fst (getAppNameFromProcessID e procID False s0) = aName"
  obtain s1 where n: "getAppNameFromProcessID e procID False s0 = (aName, s1)"
    using miss by (cases "getAppNameFromProcessID e procID False s0") simp
  have rt: "runningTable s1 = runningTable s0"
    using getAppNameFromProcessID_runningTable [of e procID False s0] n by simp
  have "getAppModuleFromProcessID e procID s0 =
     (Inl (RuntimeError []), snd (fetchAppModuleClass e aName s1))"
    using miss n
    by (cases "map_of (runningTable s0) procID")
       (auto simp: getAppModuleFromProcessID_def f split: option.splits)
  then show "fst (getAppModuleFromProcessID e procID s0) = Inl (RuntimeError [])"
    and "runningTable (snd (getAppModuleFromProcessID e procID s0)) = runningTable s0"
    by (simp_all add: f rt log_def oscall_def speakMessage_def)
qed

theorem fetchAppModuleClass_absent_or_broken_witness:
  "\<not> isfile envBroken (modulePath ''unknownapp'') \<and>
   fst (fetchAppModuleClass envBroken ''unknownapp'' state0) = Inr (AttrClass AppModule) \<and>
   spoken (snd (fetchAppModuleClass envBroken ''unknownapp'' state0)) = [] \<and>
   isfile envBroken (modulePath ''broken'') \<and>
   (\<forall>v. importModule envBroken ''broken'' \<noteq> Imported (Some v)) \<and>
   fst (fetchAppModuleClass envBroken ''broken'' state0) = Inl (RuntimeError []) \<and>
   spoken (snd (fetchAppModuleClass envBroken ''broken'' state0)) =
     [Speak ''Error in appModule %s'' [PStr ''broken'']] \<and>
   (\<forall>m. map_of (runningTable state0) (PInt 9) \<noteq> Some (Some m)) \<and>
   fst (getAppNameFromProcessID envBroken (PInt 9) False state0) = ''broken'' \<and>
   fst (getAppModuleFromProcessID envBroken (PInt 9) state0) = Inl (RuntimeError []) \<and>
   runningTable (snd (getAppModuleFromProcessID envBroken (PInt 9) state0)) = []"
proof -
  have name: "fst (getAppNameFromProcessID envBroken (PInt 9) False state0) = ''broken''"
    by code_simp
  have a: "\<not> isfile envBroken (modulePath ''unknownapp'')"
    and b: "isfile envBroken (modulePath ''broken'')"
    and c: "\<forall>v. importModule envBroken ''broken'' \<noteq> Imported (Some v)"
    and d: "\<forall>m. map_of (runningTable state0) (PInt 9) \<noteq> Some (Some m)"
    by (simp_all add: envBroken_def env0_def isfile_def state0_def modulePath_def)
  from fetchAppModuleClass_absent_or_broken [of envBroken "''unknownapp''" state0] a
       fetchAppModuleClass_absent_or_broken [of envBroken "''broken''" state0] b c d name
  show ?thesis
    by (simp add: state0_def)
qed


text \<open>
  Against claim C3 as stated: the file \<^verbatim>\<open>foo.py\<close> exists and imports well but defines no
  \<^verbatim>\<open>AppModule\<close>; the read of the attribute raises inside the \<^verbatim>\<open>try\<close>, and
  \<open>fetchAppModuleClass\<close> raises \<^verbatim>\<open>RuntimeError\<close> instead of returning the base class.
\<close>

theorem fetchAppModuleClass_missing_symbol_raises:
  "isfile envNoSymbol (modulePath ''foo'') \<and>
   importModule envNoSymbol ''foo'' = Imported None \<and>
   fst (fetchAppModuleClass envNoSymbol ''foo'' state0) = Inl (RuntimeError []) \<and>
   fst (fetchAppModuleClass envNoSymbol ''foo'' state0) \<noteq> Inr (AttrClass AppModule)"
  by (simp add: fetchAppModuleClass_unfold envNoSymbol_def env0_def isfile_def modulePath_def)

text \<open>
  The base class comes back without error in three cases only: the file is missing, the
  file defines \<^verbatim>\<open>AppModule\<close> as \<^verbatim>\<open>None\<close>, or the file exports the base class itself.
\<close>

lemma fetchAppModuleClass_base_iff:
  "fst (fetchAppModuleClass e aName s) = Inr (AttrClass AppModule) \<longleftrightarrow>
     \<not> isfile e (modulePath aName) \<or>
     importModule e aName = Imported (Some AttrNone) \<or>
     importModule e aName = Imported (Some (AttrClass AppModule))"
  by (auto simp: fetchAppModuleClass_unfold orAppModule_def Let_def
        split: import_result.splits option.splits if_splits)

text \<open>
  Claim C3, as the code has it: for every application name whose extension file exists and
  imports well but does not define \<^verbatim>\<open>AppModule\<close>, \<open>fetchAppModuleClass\<close> does not
  return the base class: it logs the error, speaks the error message and raises
  \<^verbatim>\<open>RuntimeError\<close>.
\<close>

theorem fetchAppModuleClass_symbol_absent_raises:
  "isfile e (modulePath aName) \<and> importModule e aName = Imported None \<longrightarrow>
     fst (fetchAppModuleClass e aName s) = Inl (RuntimeError []) \<and>
     fst (fetchAppModuleClass e aName s) \<noteq> Inr (AttrClass AppModule) \<and>
     spoken (snd (fetchAppModuleClass e aName s)) =
       spoken s @ [Speak ''Error in appModule %s'' [PStr aName]] \<and>
     logged (snd (fetchAppModuleClass e aName s)) =
       logged s @ [Log DEBUG ''Does appModules/%s.py exist: %s'' [PStr aName, PStr ''True''],
                   Log ERROR ''Error in appModule %s'' [PStr aName]]"
  by (simp add: fetchAppModuleClass_unfold speakMessage_def log_def oscall_def str_of_bool_def)

theorem fetchAppModuleClass_symbol_absent_raises_witness:
  "isfile envNoSymbol (modulePath ''foo'') \<and> importModule envNoSymbol ''foo'' = Imported None \<and>
   fst (fetchAppModuleClass envNoSymbol ''foo'' state0) = Inl (RuntimeError []) \<and>
   spoken (snd (fetchAppModuleClass envNoSymbol ''foo'' state0)) =
     [Speak ''Error in appModule %s'' [PStr ''foo'']] \<and>
   logged (snd (fetchAppModuleClass envNoSymbol ''foo'' state0)) =
     [Log DEBUG ''Does appModules/%s.py exist: %s'' [PStr ''foo'', PStr ''True''],
      Log ERROR ''Error in appModule %s'' [PStr ''foo'']]"
  using fetchAppModuleClass_symbol_absent_raises [of envNoSymbol "''foo''" state0]
  by (simp add: envNoSymbol_def env0_def isfile_def modulePath_def state0_def)

section \<open>Startup\<close>

text \<open>
  Nothing in the loading of a key map speaks. So when \<^verbatim>\<open>appModules/_default.py\<close> is
  missing and a key map file for \<^verbatim>\<open>_default\<close> is found, \<open>initialize\<close> returns normally
  with nothing spoken.
\<close>

lemma bindLines_spoken:
  "spoken (snd (snd (bindLines e a ls (m, n, s)))) = spoken s"
proof (induction ls arbitrary: m n s)
  case Nil
  then show ?case by simp
next
  case (Cons l ls)
  then show ?case
    by (auto simp: log_def split: option.splits prod.splits bool.splits)
qed

lemma getKeyMapFileName_spoken:
  "spoken (snd (getKeyMapFileName e a layout s)) = spoken s"
  by (simp add: getKeyMapFileName_unfold Let_def log_def oscall_def)

lemma loadKeyMap_spoken:
  "spoken (snd (snd (loadKeyMap e a m s))) = spoken s"
proof (cases "getKeyMapFileName e a (keyboardLayout e) s")
  case (Pair r s1)
  then have s1: "spoken s1 = spoken s"
    using getKeyMapFileName_spoken [of e a "keyboardLayout e" s] by simp
  show ?thesis
  proof (cases r)
    case None
    with Pair s1 show ?thesis by (simp add: loadKeyMap_cases)
  next
    case (Some f)
    show ?thesis
    proof (cases "files e f")
      case None
      with Pair Some s1 show ?thesis by (simp add: loadKeyMap_cases oscall_def)
    next
      case (Some ls)
      obtain m' n s3 where b: "bindLines e a ls (clearKeyMap m, 0, oscall [OpenFile f] s1) = (m', n, s3)"
        by (cases "bindLines e a ls (clearKeyMap m, 0, oscall [OpenFile f] s1)") auto
      then have "spoken s3 = spoken s"
        using bindLines_spoken [of e a ls "clearKeyMap m" 0 "oscall [OpenFile f] s1"] s1
        by (simp add: oscall_def)
      with Pair \<open>r = Some f\<close> Some b show ?thesis by (simp add: loadKeyMap_cases log_def)
    qed
  qed
qed

lemma initialize_missing_default_file:
  assumes "\<not> isfile e (modulePath ''_default'')"
    and "isfile e (keyMapPath (PStr ''_default'') (keyboardLayout e)) \<or>
         isfile e (keyMapPath (PStr ''_default'') ''desktop'')"
  shows "fst (initialize e s) = Inr () \<and> spoken (snd (initialize e s)) = spoken s"
proof -
  let ?s0 = "oscall [GetPid] (s\<lparr>NVDAProcessID := PInt (getpid e)\<rparr>)"
  obtain s1 where f: "fetchAppModuleClass e ''_default'' ?s0 = (Inr (AttrClass AppModule), s1)"
    and s1: "spoken s1 = spoken s"
    using assms(1) by (simp add: fetchAppModuleClass_unfold Let_def log_def oscall_def)
  obtain m s2 where i: "AppModule_init e AppModule (PStr ''_default'') (PInt (desktopWindow e))
      (oscall [GetDesktopWindow] s1) = (m, s2)"
    by (cases "AppModule_init e AppModule (PStr ''_default'') (PInt (desktopWindow e))
      (oscall [GetDesktopWindow] s1)") auto
  then have s2: "spoken s2 = spoken s"
    using s1 by (auto simp: AppModule_init_def Let_def oscall_def)
  let ?s2 = "s2\<lparr>defaultModule := Some m\<rparr>"
  have found: "fst (getKeyMapFileName e (PStr ''_default'') (keyboardLayout e) ?s2) \<noteq> None"
    using assms(2) by (auto simp: getKeyMapFileName_fst)
  obtain r d' s3 where l: "loadKeyMap e (PStr ''_default'') m ?s2 = (r, d', s3)"
    by (cases "loadKeyMap e (PStr ''_default'') m ?s2") auto
  then have r: "r = Inr True"
    using loadKeyMap_fst [of e "PStr ''_default''" m ?s2] found by simp
  have s3: "spoken s3 = spoken s"
    using loadKeyMap_spoken [of e "PStr ''_default''" m ?s2] l s2 by simp
  from f i l r s3 show ?thesis
    by (simp add: initialize_def Let_def log_def)
qed

text \<open>
  Claim C2 at an input where the code departs from it: \<^verbatim>\<open>appModules/_default.py\<close> is
  missing and the key map file of \<^verbatim>\<open>_default\<close> exists. \<open>fetchAppModuleClass\<close> answers
  the base class for the missing file, so \<open>initialize\<close> builds the default module from it,
  loads the key map and returns normally, with nothing spoken.
\<close>

theorem initialize_without_default_file_completes:
  "\<not> isfile envNoDefault (modulePath ''_default'') \<and>
   fst (initialize envNoDefault state0) = Inr () \<and>
   spoken (snd (initialize envNoDefault state0)) = [] \<and>
   map_option cls (defaultModule (snd (initialize envNoDefault state0))) = Some AppModule"
  by code_simp

section \<open>Process identity\<close>

text \<open>
  Against claim C8 as stated (the path is stripped): for a snapshot entry whose
  \<^verbatim>\<open>szExeFile\<close> is a full path, the name returned keeps the directories; stripping the
  path first would have given \<^verbatim>\<open>foo\<close>.
\<close>

theorem getAppNameFromProcessID_keeps_path:
  "fst (getAppNameFromProcessID envPath (PInt 7) False state0) =
     ''c:'' @ [backslash] @ ''apps'' @ [backslash] @ ''foo'' \<and>
   lower (fst (splitext (strip_path exePath))) = ''foo'' \<and>
   fst (getAppNameFromProcessID envPath (PInt 7) False state0) \<noteq>
     lower (fst (splitext (strip_path exePath)))"
  by code_simp

lemma scanSnapshot_fst:
  "fst (scanSnapshot xs p) =
     (case find (\<lambda>(q, exe). PInt q = p) xs of None \<Rightarrow> [] | Some (q, exe) \<Rightarrow> exe)"
  by (induction xs p rule: scanSnapshot.induct) (auto split: prod.splits)

lemma splitext_Nil: "splitext [] = ([], [])"
  by (simp add: splitext_def rfind_def)

text \<open>
  Claim C8, as the code has it: for the host's own process ID the function returns the
  fixed name and leaves the state untouched (no snapshot is taken); otherwise it takes a
  snapshot, walks it to the first entry with that process ID and closes the handle, and
  returns the file name of that entry as the OS reports it (no path is stripped), and,
  unless \<open>includeExt\<close> is set, without its extension and in lower case; when no entry
  matches, the result is the empty string.
\<close>

theorem getAppNameFromProcessID_resolves:
  "(procID = NVDAProcessID s \<longrightarrow>
      getAppNameFromProcessID e procID includeExt s =
        ((if includeExt then ''nvda.exe'' else ''nvda''), s)) \<and>
   (procID \<noteq> NVDAProcessID s \<longrightarrow>
      fst (getAppNameFromProcessID e procID includeExt s) =
        (let exe = (case find (\<lambda>(q, exe). PInt q = procID) (snapshot e) of
                      None \<Rightarrow> [] | Some (q, exe) \<Rightarrow> exe)
         in if includeExt then exe else lower (fst (splitext exe))) \<and>
      oscalls (snd (getAppNameFromProcessID e procID includeExt s)) =
        oscalls s @ [CreateToolhelp32Snapshot, Process32First] @
        snd (scanSnapshot (snapshot e) procID) @ [CloseHandle]) \<and>
   (procID \<noteq> NVDAProcessID s \<and> (\<forall>(q, exe) \<in> set (snapshot e). PInt q \<noteq> procID) \<longrightarrow>
      fst (getAppNameFromProcessID e procID includeExt s) = [])"
proof (intro conjI impI)
  assume "procID = NVDAProcessID s"
  then show "getAppNameFromProcessID e procID includeExt s =
        ((if includeExt then ''nvda.exe'' else ''nvda''), s)"
    by (simp add: getAppNameFromProcessID_def)
next
  assume ne: "procID \<noteq> NVDAProcessID s"
  obtain found cs where sc: "scanSnapshot (snapshot e) procID = (found, cs)"
    by (cases "scanSnapshot (snapshot e) procID")
  then have f: "found = (case find (\<lambda>(q, exe). PInt q = procID) (snapshot e) of
                      None \<Rightarrow> [] | Some (q, exe) \<Rightarrow> exe)"
    using scanSnapshot_fst [of "snapshot e" procID] by simp
  from ne sc f show "fst (getAppNameFromProcessID e procID includeExt s) =
        (let exe = (case find (\<lambda>(q, exe). PInt q = procID) (snapshot e) of
                      None \<Rightarrow> [] | Some (q, exe) \<Rightarrow> exe)
         in if includeExt then exe else lower (fst (splitext exe)))"
    by (simp add: getAppNameFromProcessID_def Let_def)
  from ne sc show "oscalls (snd (getAppNameFromProcessID e procID includeExt s)) =
        oscalls s @ [CreateToolhelp32Snapshot, Process32First] @
        snd (scanSnapshot (snapshot e) procID) @ [CloseHandle]"
    by (simp add: getAppNameFromProcessID_def Let_def log_def oscall_def)
next
  assume a: "procID \<noteq> NVDAProcessID s \<and> (\<forall>(q, exe) \<in> set (snapshot e). PInt q \<noteq> procID)"
  then have "find (\<lambda>(q, exe). PInt q = procID) (snapshot e) = None"
    by (auto simp: find_None_iff)
  then have "fst (scanSnapshot (snapshot e) procID) = []"
    by (simp add: scanSnapshot_fst)
  then obtain cs where "scanSnapshot (snapshot e) procID = ([], cs)"
    by (cases "scanSnapshot (snapshot e) procID") simp
  with a show "fst (getAppNameFromProcessID e procID includeExt s) = []"
    by (simp add: getAppNameFromProcessID_def Let_def splitext_Nil lower_def)
qed

theorem getAppNameFromProcessID_resolves_witness:
  "PInt 42 = NVDAProcessID (state0\<lparr>NVDAProcessID := PInt 42\<rparr>) \<and>
   getAppNameFromProcessID envPath (PInt 42) False (state0\<lparr>NVDAProcessID := PInt 42\<rparr>) =
     (''nvda'', state0\<lparr>NVDAProcessID := PInt 42\<rparr>) \<and>
   PInt 3 \<noteq> NVDAProcessID state0 \<and>
   fst (getAppNameFromProcessID envPath (PInt 3) False state0) = ''other'' \<and>
   oscalls (snd (getAppNameFromProcessID envPath (PInt 3) False state0)) =
     [CreateToolhelp32Snapshot, Process32First, CloseHandle] \<and>
   PInt 8 \<noteq> NVDAProcessID state0 \<and>
   PInt 8 \<notin> set (map (PInt \<circ> fst) (snapshot envPath)) \<and>
   fst (getAppNameFromProcessID envPath (PInt 8) False state0) = []"
proof -
  have o: "lower (fst (splitext ''other.exe'')) = ''other''"
    by code_simp
  from getAppNameFromProcessID_resolves [of "PInt 42" "state0\<lparr>NVDAProcessID := PInt 42\<rparr>" envPath False]
       getAppNameFromProcessID_resolves [of "PInt 3" state0 envPath False]
       getAppNameFromProcessID_resolves [of "PInt 8" state0 envPath False] o
  show ?thesis
    by (simp add: envPath_def env0_def state0_def splitext_Nil lower_def)
qed

end
